theory Spec2Isabelle
  imports Main
begin

section \<open>Python values\<close>

text \<open>
  A Python \<open>str\<close> is a sequence of Unicode code points, and \<open>len\<close> and slicing count
  code points.  A string of the model is therefore a list of code points; \<open>lit\<close> turns
  an ASCII literal into one.  The source's literals hold four characters outside
  ASCII: the em dash, the bullet, and the warning sign with its variation selector.
\<close>

type_synonym pystr = "nat list"

definition lit :: "string \<Rightarrow> pystr" where
  "lit s = map of_char s"

definition em_dash :: pystr where
  "em_dash = [8212]"

definition bullet :: pystr where
  "bullet = [8226]"

definition warning_sign :: pystr where
  "warning_sign = [9888, 65039]"

definition quoted :: "pystr \<Rightarrow> pystr" where
  "quoted s = [39] @ s @ [39]"

text \<open>
  What \<open>resp.json()\<close> returns: \<open>None\<close>, \<open>bool\<close>, \<open>int\<close>, \<open>float\<close>, \<open>str\<close>,
  \<open>list\<close> and \<open>dict\<close>.  The code observes only two things of a \<open>float\<close>: whether it
  equals zero (\<open>== 0\<close> and truthiness) and its \<open>str()\<close>; a float is kept as that pair.
  A \<open>dict\<close> is the list of its items in insertion order; the keys of a parsed JSON
  object are distinct strings.
\<close>

datatype json =
    JNull
  | JBool bool
  | JInt int
  | JFloat bool pystr
  | JStr pystr
  | JArr "json list"
  | JObj "(pystr \<times> json) list"

text \<open>
  The exceptions a check can see, in the order of its \<open>except\<close> clauses:
  \<open>httpx.TimeoutException\<close>, \<open>httpx.ConnectError\<close>, and any other \<open>Exception\<close>, kept as
  its \<open>str()\<close>.  No class of \<open>httpx\<close> is below both of the first two.
\<close>

datatype exn = TimeoutException | ConnectError | Exception pystr

definition raise_bind :: "exn + 'a \<Rightarrow> ('a \<Rightarrow> exn + 'b) \<Rightarrow> exn + 'b" where
  "raise_bind m f = (case m of Inl e \<Rightarrow> Inl e | Inr v \<Rightarrow> f v)"

fun type_name :: "json \<Rightarrow> pystr" where
  "type_name JNull = lit ''NoneType''"
| "type_name (JBool b) = lit ''bool''"
| "type_name (JInt i) = lit ''int''"
| "type_name (JFloat z s) = lit ''float''"
| "type_name (JStr s) = lit ''str''"
| "type_name (JArr xs) = lit ''list''"
| "type_name (JObj kvs) = lit ''dict''"

text \<open>\<open>d.get(key, default)\<close>; only a \<open>dict\<close> has the method.\<close>

fun py_get :: "json \<Rightarrow> pystr \<Rightarrow> json \<Rightarrow> exn + json" where
  "py_get (JObj kvs) key dflt =
     Inr (case map_of kvs key of Some v \<Rightarrow> v | None \<Rightarrow> dflt)"
| "py_get v key dflt =
     Inl (Exception (quoted (type_name v) @ lit '' object has no attribute '' @ quoted (lit ''get'')))"

text \<open>Truthiness, as \<open>if x:\<close> and \<open>not x\<close> read it.\<close>

fun py_truth :: "json \<Rightarrow> bool" where
  "py_truth JNull = False"
| "py_truth (JBool b) = b"
| "py_truth (JInt i) = (i \<noteq> 0)"
| "py_truth (JFloat z s) = (\<not> z)"
| "py_truth (JStr s) = (s \<noteq> [])"
| "py_truth (JArr xs) = (xs \<noteq> [])"
| "py_truth (JObj kvs) = (kvs \<noteq> [])"

text \<open>\<open>x == 0\<close>: \<open>False\<close> and \<open>0.0\<close> equal \<open>0\<close>, nothing that is not a number does.\<close>

fun py_eq_zero :: "json \<Rightarrow> bool" where
  "py_eq_zero (JInt i) = (i = 0)"
| "py_eq_zero (JBool b) = (\<not> b)"
| "py_eq_zero (JFloat z s) = z"
| "py_eq_zero v = False"

text \<open>\<open>len(x)\<close>.\<close>

fun py_len :: "json \<Rightarrow> exn + nat" where
  "py_len (JStr s) = Inr (length s)"
| "py_len (JArr xs) = Inr (length xs)"
| "py_len (JObj kvs) = Inr (length kvs)"
| "py_len v =
     Inl (Exception (lit ''object of type '' @ quoted (type_name v) @ lit '' has no len()''))"

text \<open>
  \<open>for c in x\<close>: the elements of a list, the one-character strings of a string, the
  keys of a dict.
\<close>

fun py_iter :: "json \<Rightarrow> exn + json list" where
  "py_iter (JArr xs) = Inr xs"
| "py_iter (JStr s) = Inr (map (\<lambda>c. JStr [c]) s)"
| "py_iter (JObj kvs) = Inr (map (\<lambda>kv. JStr (fst kv)) kvs)"
| "py_iter v =
     Inl (Exception (quoted (type_name v) @ lit '' object is not iterable''))"

text \<open>\<open>x[:5]\<close>; a dict refuses the slice as a key (CPython up to 3.11).\<close>

fun py_first5 :: "json \<Rightarrow> exn + json" where
  "py_first5 (JArr xs) = Inr (JArr (take 5 xs))"
| "py_first5 (JStr s) = Inr (JStr (take 5 s))"
| "py_first5 (JObj kvs) = Inl (Exception (lit ''unhashable type: '' @ quoted (lit ''slice'')))"
| "py_first5 v =
     Inl (Exception (quoted (type_name v) @ lit '' object is not subscriptable''))"

subsection \<open>Formatting\<close>

fun str_nat :: "nat \<Rightarrow> pystr" where
  "str_nat n = (if n < 10 then [48 + n] else str_nat (n div 10) @ [48 + n mod 10])"

definition str_int :: "int \<Rightarrow> pystr" where
  "str_int i = (if i < 0 then lit ''-'' @ str_nat (nat (- i)) else str_nat (nat i))"

definition hex_digit :: "nat \<Rightarrow> nat" where
  "hex_digit d = (if d < 10 then 48 + d else 87 + d)"

text \<open>
  \<open>repr\<close> of a string: double quotes when the text holds a single quote and no
  double quote, single quotes otherwise; the backslash, the chosen quote, newline,
  carriage return and tab escaped; a code point below 256 that is not printable
  written \<open>\xhh\<close>.  Code points from 256 on are written as they are (the printable
  ones are; the others, which CPython writes \<open>\uhhhh\<close>, are outside this model).
\<close>

definition repr_char :: "nat \<Rightarrow> nat \<Rightarrow> pystr" where
  "repr_char q c =
     (if c = 92 then [92, 92]
      else if c = q then [92, q]
      else if c = 10 then [92, 110]
      else if c = 13 then [92, 114]
      else if c = 9 then [92, 116]
      else if c < 32 \<or> (127 \<le> c \<and> c \<le> 160) \<or> c = 173
        then [92, 120, hex_digit (c div 16), hex_digit (c mod 16)]
      else [c])"

definition repr_str :: "pystr \<Rightarrow> pystr" where
  "repr_str s =
     (let q = (if 39 \<in> set s \<and> 34 \<notin> set s then 34 else 39)
      in [q] @ concat (map (repr_char q) s) @ [q])"

fun join :: "pystr \<Rightarrow> pystr list \<Rightarrow> pystr" where
  "join sep [] = []"
| "join sep [x] = x"
| "join sep (x # y # ys) = x @ sep @ join sep (y # ys)"

fun py_repr :: "json \<Rightarrow> pystr" where
  "py_repr JNull = lit ''None''"
| "py_repr (JBool b) = (if b then lit ''True'' else lit ''False'')"
| "py_repr (JInt i) = str_int i"
| "py_repr (JFloat z s) = s"
| "py_repr (JStr s) = repr_str s"
| "py_repr (JArr xs) = lit ''['' @ join (lit '', '') (map py_repr xs) @ lit '']''"
| "py_repr (JObj kvs) =
     lit ''{'' @ join (lit '', '') (map (\<lambda>kv. repr_str (fst kv) @ lit '': '' @ py_repr (snd kv)) kvs)
       @ lit ''}''"

text \<open>\<open>str(x)\<close>, which an f-string applies to each \<open>{x}\<close>: a string is itself.\<close>

fun py_str :: "json \<Rightarrow> pystr" where
  "py_str (JStr s) = s"
| "py_str v = py_repr v"


section \<open>Results and the HTTP client\<close>

datatype Status = PASS | WARN | FAIL | SKIPPED

record CheckResult =
  number :: int
  name :: pystr
  status :: Status
  details :: pystr
  extra :: "(pystr \<times> json) list"

text \<open>\<open>CheckResult(number, name, status, details)\<close>: \<open>extra\<close> takes its default, \<open>{}\<close>.\<close>

definition CheckResult :: "int \<Rightarrow> pystr \<Rightarrow> Status \<Rightarrow> pystr \<Rightarrow> CheckResult" where
  "CheckResult n nm st d = \<lparr>number = n, name = nm, status = st, details = d, extra = []\<rparr>"

text \<open>
  A response, as far as the checks read it: its status code, and what \<open>resp.json()\<close>
  does, which returns the parsed body or raises a decoding error (\<open>Inl\<close>, with the
  error's \<open>str()\<close>).
\<close>

record response =
  status_code :: int
  parsed :: "pystr + json"

definition resp_json :: "response \<Rightarrow> exn + json" where
  "resp_json resp = (case parsed resp of Inl msg \<Rightarrow> Inl (Exception msg) | Inr v \<Rightarrow> Inr v)"

text \<open>
  The two calls \<open>make_request\<close> issues on \<open>httpx.Client\<close>: \<open>client.get(url, headers)\<close>
  and \<open>client.post(url, headers, json)\<close>.  A client of the model is the behaviour of
  the network behind it (\<open>server\<close>: what a call returns or raises, given the calls
  issued before it) and the calls issued so far (\<open>sent\<close>).
\<close>

datatype http_call =
    GET pystr "(pystr \<times> json) list"
  | POST pystr "(pystr \<times> json) list" "json option"

record client =
  server :: "http_call list \<Rightarrow> http_call \<Rightarrow> exn + response"
  sent :: "http_call list"

text \<open>\<open>httpx.Client(timeout=timeout)\<close>: a client on the network, nothing sent yet.\<close>

definition Client :: "(http_call list \<Rightarrow> http_call \<Rightarrow> exn + response) \<Rightarrow> int \<Rightarrow> client" where
  "Client net timeout = \<lparr>server = net, sent = []\<rparr>"

definition issue :: "client \<Rightarrow> http_call \<Rightarrow> (exn + response) \<times> client" where
  "issue c call = (server c (sent c) call, c\<lparr>sent := sent c @ [call]\<rparr>)"

definition make_request ::
  "client \<Rightarrow> pystr \<Rightarrow> pystr \<Rightarrow> json option \<Rightarrow> json option \<Rightarrow> (exn + response) \<times> client" where
  "make_request c method url token json_body =
     (let headers = (case token of
                       None \<Rightarrow> []
                     | Some t \<Rightarrow> if py_truth t then [(lit ''Authorization'', t)] else [])
      in if method = lit ''GET'' then issue c (GET url headers)
         else issue c (POST url headers json_body))"

section \<open>The checks (koddi\_healthcheck.py)\<close>

text \<open>
  Each check is a \<open>try\<close> block with three \<open>except\<close> clauses.  The part of the block
  after the request is a function of the response (\<open>check_*_body\<close>); the check
  itself issues the request, runs that part and applies the \<open>except\<close> clauses to
  whatever either raised.  \<open>make_request\<close>, \<open>check_auth\<close> and \<open>check_advertiser\<close> are
  the same code in app.py.
\<close>

text \<open>
  The error envelope: \<open>error_code = data.get("error_code", "unknown")\<close> and
  \<open>error_msg = data.get("message", data.get("error", "unknown error"))\<close>, the inner
  \<open>get\<close> evaluated first.
\<close>

definition error_fields :: "json \<Rightarrow> exn + (json \<times> json)" where
  "error_fields data =
     raise_bind (py_get data (lit ''error_code'') (JStr (lit ''unknown''))) (\<lambda>error_code.
     raise_bind (py_get data (lit ''error'') (JStr (lit ''unknown error''))) (\<lambda>err.
     raise_bind (py_get data (lit ''message'') err) (\<lambda>error_msg.
       Inr (error_code, error_msg))))"

definition check_auth_body :: "response \<Rightarrow> exn + (CheckResult \<times> json option)" where
  "check_auth_body resp =
     raise_bind (resp_json resp) (\<lambda>data.
     raise_bind (py_get data (lit ''status'') JNull) (\<lambda>st.
       if st = JStr (lit ''success'') then
         raise_bind (py_get data (lit ''result'') (JObj [])) (\<lambda>result.
         raise_bind (py_get result (lit ''token'') (JObj [])) (\<lambda>tok.
         raise_bind (py_get tok (lit ''id_token'') JNull) (\<lambda>token.
           if py_truth token
           then Inr (CheckResult 1 (lit ''Authentication'') PASS (lit ''Authenticated successfully''),
                     Some token)
           else Inr (CheckResult 1 (lit ''Authentication'') FAIL (lit ''No id_token in response''),
                     None))))
       else
         raise_bind (error_fields data) (\<lambda>(error_code, error_msg).
           Inr (CheckResult 1 (lit ''Authentication'') FAIL
                  (lit ''Login failed '' @ em_dash @ lit '' code '' @ py_str error_code
                     @ lit '': '' @ py_str error_msg),
                None))))"

definition check_auth ::
  "client \<Rightarrow> pystr \<Rightarrow> pystr \<Rightarrow> pystr \<Rightarrow> int \<Rightarrow> (CheckResult \<times> json option) \<times> client" where
  "check_auth c base_url email password member_group_id =
     (let (out, c') = make_request c (lit ''POST'') (base_url @ lit ''/session/login'') None
            (Some (JObj [(lit ''email'', JStr email), (lit ''password'', JStr password),
                         (lit ''member_group_id'', JInt member_group_id)]))
      in (case raise_bind out check_auth_body of
            Inr r \<Rightarrow> r
          | Inl TimeoutException \<Rightarrow>
              (CheckResult 1 (lit ''Authentication'') FAIL (lit ''Request timed out''), None)
          | Inl ConnectError \<Rightarrow>
              (CheckResult 1 (lit ''Authentication'') FAIL
                 (lit ''Connection error '' @ em_dash @ lit '' cannot reach API''), None)
          | Inl (Exception exc) \<Rightarrow>
              (CheckResult 1 (lit ''Authentication'') FAIL (lit ''Unexpected error: '' @ exc), None),
          c'))"

definition check_advertiser_body :: "response \<Rightarrow> exn + CheckResult" where
  "check_advertiser_body resp =
     raise_bind (resp_json resp) (\<lambda>data.
     raise_bind (py_get data (lit ''status'') JNull) (\<lambda>st.
       if st = JStr (lit ''success'') then
         raise_bind (py_get data (lit ''result'') (JObj [])) (\<lambda>result.
         raise_bind (py_get result (lit ''name'') (JStr (lit ''N/A''))) (\<lambda>adv_name.
         raise_bind (py_get result (lit ''status'') (JStr (lit ''N/A''))) (\<lambda>adv_status.
         raise_bind (py_get result (lit ''entity_count'') (JStr (lit ''N/A''))) (\<lambda>entity_count.
         raise_bind (py_get result (lit ''currency_code'') (JStr (lit ''N/A''))) (\<lambda>currency.
           Inr (CheckResult 2 (lit ''Advertiser Exists'') PASS
                  (lit ''Found: '' @ py_str adv_name @ lit '' | status='' @ py_str adv_status
                     @ lit '' | entities='' @ py_str entity_count
                     @ lit '' | currency='' @ py_str currency)))))))
       else
         raise_bind (error_fields data) (\<lambda>(error_code, error_msg).
           Inr (CheckResult 2 (lit ''Advertiser Exists'') FAIL
                  (lit ''Error '' @ py_str error_code @ lit '': '' @ py_str error_msg)))))"

definition check_advertiser ::
  "client \<Rightarrow> pystr \<Rightarrow> json \<Rightarrow> int \<Rightarrow> int \<Rightarrow> CheckResult \<times> client" where
  "check_advertiser c base_url token member_group_id advertiser_id =
     (let url = base_url @ lit ''/member_groups/'' @ str_int member_group_id
                  @ lit ''/advertisers/'' @ str_int advertiser_id;
          (out, c') = make_request c (lit ''GET'') url (Some token) None
      in (case raise_bind out check_advertiser_body of
            Inr r \<Rightarrow> r
          | Inl TimeoutException \<Rightarrow>
              CheckResult 2 (lit ''Advertiser Exists'') FAIL (lit ''Request timed out'')
          | Inl ConnectError \<Rightarrow>
              CheckResult 2 (lit ''Advertiser Exists'') FAIL (lit ''Connection error'')
          | Inl (Exception exc) \<Rightarrow>
              CheckResult 2 (lit ''Advertiser Exists'') FAIL (lit ''Unexpected error: '' @ exc),
          c'))"

text \<open>
  The loop of Check 3: one line per campaign, and the first \<open>c.get\<close> that raises ends
  the loop and the \<open>try\<close> block.
\<close>

definition campaign_line :: "json \<Rightarrow> exn + pystr" where
  "campaign_line c =
     raise_bind (py_get c (lit ''name'') (JStr (lit ''N/A''))) (\<lambda>c_name.
     raise_bind (py_get c (lit ''status'') (JStr (lit ''N/A''))) (\<lambda>c_status.
     raise_bind (py_get c (lit ''always_on'') (JStr (lit ''N/A''))) (\<lambda>always_on.
     raise_bind (py_get c (lit ''budget_type'') (JStr (lit ''N/A''))) (\<lambda>budget_type.
     raise_bind (py_get c (lit ''budget_amount'') (JStr (lit ''N/A''))) (\<lambda>budget_amount.
       Inr (lit ''  '' @ bullet @ lit '' '' @ py_str c_name @ lit '' | status='' @ py_str c_status
              @ lit '' | always_on='' @ py_str always_on
              @ lit '' | budget='' @ py_str budget_type @ lit ''/'' @ py_str budget_amount))))))"

fun for_each :: "(json \<Rightarrow> exn + pystr) \<Rightarrow> json list \<Rightarrow> exn + pystr list" where
  "for_each f [] = Inr []"
| "for_each f (x # xs) =
     raise_bind (f x) (\<lambda>l. raise_bind (for_each f xs) (\<lambda>ls. Inr (l # ls)))"

definition check_campaigns_body :: "response \<Rightarrow> exn + CheckResult" where
  "check_campaigns_body resp =
     raise_bind (resp_json resp) (\<lambda>data.
     raise_bind (py_get data (lit ''status'') JNull) (\<lambda>st.
       if st \<noteq> JStr (lit ''success'') then
         raise_bind (error_fields data) (\<lambda>(error_code, error_msg).
           Inr (CheckResult 3 (lit ''Campaigns Report'') FAIL
                  (lit ''Error '' @ py_str error_code @ lit '': '' @ py_str error_msg)))
       else
         raise_bind (py_get data (lit ''result'') (JObj [])) (\<lambda>result.
         raise_bind (py_get result (lit ''campaigns'') (JArr [])) (\<lambda>campaigns.
         raise_bind (py_len campaigns) (\<lambda>n.
         raise_bind (py_get result (lit ''total'') (JInt (int n))) (\<lambda>total.
           if py_eq_zero total then
             Inr (CheckResult 3 (lit ''Campaigns Report'') WARN
                    (warning_sign @ lit ''  Zero campaigns found for this advertiser''))
           else
             raise_bind (py_iter campaigns) (\<lambda>cs.
             raise_bind (for_each campaign_line cs) (\<lambda>ls.
               Inr (CheckResult 3 (lit ''Campaigns Report'') PASS
                      (join (lit [CHR 0x0A])
                         ((lit ''Found '' @ py_str total @ lit '' campaign(s)'') # ls)))))))))))"

definition check_campaigns ::
  "client \<Rightarrow> pystr \<Rightarrow> json \<Rightarrow> int \<Rightarrow> int \<Rightarrow> CheckResult \<times> client" where
  "check_campaigns c base_url token member_group_id advertiser_id =
     (let url = base_url @ lit ''/member_groups/'' @ str_int member_group_id
                  @ lit ''/advertisers/'' @ str_int advertiser_id @ lit ''/campaigns_report'';
          (out, c') = make_request c (lit ''POST'') url (Some token)
                        (Some (JObj [(lit ''pagination'', JObj [(lit ''start'', JInt 0)])]))
      in (case raise_bind out check_campaigns_body of
            Inr r \<Rightarrow> r
          | Inl TimeoutException \<Rightarrow>
              CheckResult 3 (lit ''Campaigns Report'') FAIL (lit ''Request timed out'')
          | Inl ConnectError \<Rightarrow>
              CheckResult 3 (lit ''Campaigns Report'') FAIL (lit ''Connection error'')
          | Inl (Exception exc) \<Rightarrow>
              CheckResult 3 (lit ''Campaigns Report'') FAIL (lit ''Unexpected error: '' @ exc),
          c'))"

text \<open>
  The loop of Check 4, over at most five failures.  (app.py reads \<open>error_code\<close>
  before \<open>error_message\<close>; both are \<open>get\<close>s on the same value.)
\<close>

definition failure_line :: "json \<Rightarrow> exn + pystr" where
  "failure_line f =
     raise_bind (py_get f (lit ''error_message'') (JStr (lit ''N/A''))) (\<lambda>err_msg.
     raise_bind (py_get f (lit ''error_code'') (JStr (lit ''N/A''))) (\<lambda>err_code.
       Inr (lit ''  '' @ bullet @ lit '' ['' @ py_str err_code @ lit ''] '' @ py_str err_msg)))"

definition check_entity_failures_body :: "response \<Rightarrow> exn + CheckResult" where
  "check_entity_failures_body resp =
     raise_bind (resp_json resp) (\<lambda>data.
     raise_bind (py_get data (lit ''status'') JNull) (\<lambda>st.
       if st \<noteq> JStr (lit ''success'') then
         raise_bind (error_fields data) (\<lambda>(error_code, error_msg).
           Inr (CheckResult 4 (lit ''Entity Registration Failures'') FAIL
                  (lit ''Error '' @ py_str error_code @ lit '': '' @ py_str error_msg)))
       else
         raise_bind (py_get data (lit ''result'') (JObj [])) (\<lambda>result.
         raise_bind (py_get result (lit ''total'') (JInt 0)) (\<lambda>total.
           if py_eq_zero total then
             Inr (CheckResult 4 (lit ''Entity Registration Failures'') PASS
                    (lit ''No entity registration failures''))
           else
             raise_bind (py_get result (lit ''entity_registrations'') (JArr [])) (\<lambda>regs.
             raise_bind (py_first5 regs) (\<lambda>failures.
             raise_bind (py_len failures) (\<lambda>n.
             raise_bind (py_iter failures) (\<lambda>fs.
             raise_bind (for_each failure_line fs) (\<lambda>ls.
               Inr (CheckResult 4 (lit ''Entity Registration Failures'') WARN
                      (join (lit [CHR 0x0A])
                         ((warning_sign @ lit ''  '' @ py_str total
                             @ lit '' registration failure(s) found. First '' @ str_nat n @ lit '':'')
                          # ls))))))))))))"

definition check_entity_failures ::
  "client \<Rightarrow> pystr \<Rightarrow> json \<Rightarrow> int \<Rightarrow> int \<Rightarrow> CheckResult \<times> client" where
  "check_entity_failures c base_url token member_group_id advertiser_id =
     (let url = base_url @ lit ''/member_groups/'' @ str_int member_group_id
                  @ lit ''/advertisers/'' @ str_int advertiser_id
                  @ lit ''/entity_registrations/failed/report'';
          (out, c') = make_request c (lit ''POST'') url (Some token)
                        (Some (JObj [(lit ''pagination'',
                                      JObj [(lit ''count'', JInt 50), (lit ''start'', JInt 0)])]))
      in (case raise_bind out check_entity_failures_body of
            Inr r \<Rightarrow> r
          | Inl TimeoutException \<Rightarrow>
              CheckResult 4 (lit ''Entity Registration Failures'') FAIL (lit ''Request timed out'')
          | Inl ConnectError \<Rightarrow>
              CheckResult 4 (lit ''Entity Registration Failures'') FAIL (lit ''Connection error'')
          | Inl (Exception exc) \<Rightarrow>
              CheckResult 4 (lit ''Entity Registration Failures'') FAIL
                (lit ''Unexpected error: '' @ exc),
          c'))"

definition check_active_bidders_body :: "response \<Rightarrow> exn + CheckResult" where
  "check_active_bidders_body resp =
     raise_bind (resp_json resp) (\<lambda>data.
     raise_bind (py_get data (lit ''status'') JNull) (\<lambda>st.
       if st \<noteq> JStr (lit ''success'') then
         raise_bind (error_fields data) (\<lambda>(error_code, error_msg).
           Inr (CheckResult 5 (lit ''Active Bidders Cache'') FAIL
                  (lit ''Error '' @ py_str error_code @ lit '': '' @ py_str error_msg)))
       else
         raise_bind (py_get data (lit ''result'') (JObj [])) (\<lambda>result.
         raise_bind (py_get result (lit ''active_bidders'') (JArr [])) (\<lambda>bidders.
           if \<not> py_truth bidders then
             Inr (CheckResult 5 (lit ''Active Bidders Cache'') WARN
                    (warning_sign @ lit ''  Active bidders list is empty '' @ em_dash
                       @ lit '' no ad groups are active''))
           else
             raise_bind (py_len bidders) (\<lambda>n.
               Inr (CheckResult 5 (lit ''Active Bidders Cache'') PASS
                      (str_nat n @ lit '' active bidder(s) in cache'')))))))"

definition check_active_bidders ::
  "client \<Rightarrow> pystr \<Rightarrow> json \<Rightarrow> int \<Rightarrow> CheckResult \<times> client" where
  "check_active_bidders c base_url token member_group_id =
     (let url = base_url @ lit ''/member_groups/'' @ str_int member_group_id
                  @ lit ''/active_bidders'';
          (out, c') = make_request c (lit ''GET'') url (Some token) None
      in (case raise_bind out check_active_bidders_body of
            Inr r \<Rightarrow> r
          | Inl TimeoutException \<Rightarrow>
              CheckResult 5 (lit ''Active Bidders Cache'') FAIL (lit ''Request timed out'')
          | Inl ConnectError \<Rightarrow>
              CheckResult 5 (lit ''Active Bidders Cache'') FAIL (lit ''Connection error'')
          | Inl (Exception exc) \<Rightarrow>
              CheckResult 5 (lit ''Active Bidders Cache'') FAIL (lit ''Unexpected error: '' @ exc),
          c'))"

definition check_attributable_entities_body :: "response \<Rightarrow> exn + CheckResult" where
  "check_attributable_entities_body resp =
     raise_bind (resp_json resp) (\<lambda>data.
     raise_bind (py_get data (lit ''status'') JNull) (\<lambda>st.
       if st \<noteq> JStr (lit ''success'') then
         raise_bind (error_fields data) (\<lambda>(error_code, error_msg).
           Inr (CheckResult 6 (lit ''Attributable Entities Cache'') FAIL
                  (lit ''Error '' @ py_str error_code @ lit '': '' @ py_str error_msg)))
       else
         raise_bind (py_get data (lit ''result'') (JObj [])) (\<lambda>result.
         raise_bind (py_get result (lit ''attributable_entities'') (JArr [])) (\<lambda>entities.
           if \<not> py_truth entities then
             Inr (CheckResult 6 (lit ''Attributable Entities Cache'') WARN
                    (warning_sign @ lit ''  No attributable entities '' @ em_dash
                       @ lit '' conversions won'' @ [39] @ lit ''t attribute''))
           else
             raise_bind (py_len entities) (\<lambda>n.
               Inr (CheckResult 6 (lit ''Attributable Entities Cache'') PASS
                      (str_nat n @ lit '' attributable entit(ies) in cache'')))))))"

definition check_attributable_entities ::
  "client \<Rightarrow> pystr \<Rightarrow> json \<Rightarrow> int \<Rightarrow> CheckResult \<times> client" where
  "check_attributable_entities c base_url token member_group_id =
     (let url = base_url @ lit ''/member_groups/'' @ str_int member_group_id
                  @ lit ''/attributable_entities'';
          (out, c') = make_request c (lit ''GET'') url (Some token) None
      in (case raise_bind out check_attributable_entities_body of
            Inr r \<Rightarrow> r
          | Inl TimeoutException \<Rightarrow>
              CheckResult 6 (lit ''Attributable Entities Cache'') FAIL (lit ''Request timed out'')
          | Inl ConnectError \<Rightarrow>
              CheckResult 6 (lit ''Attributable Entities Cache'') FAIL (lit ''Connection error'')
          | Inl (Exception exc) \<Rightarrow>
              CheckResult 6 (lit ''Attributable Entities Cache'') FAIL
                (lit ''Unexpected error: '' @ exc),
          c'))"

text \<open>
  Check 7 reads the status code before it parses the body, and takes no token.
  The request body is a dict built in place; \<open>experience_name\<close> is added when it
  \<open>is not None\<close>.
\<close>

definition check_winning_ads_body :: "pystr \<Rightarrow> response \<Rightarrow> exn + CheckResult" where
  "check_winning_ads_body client_name resp =
     (if status_code resp \<noteq> 200 then
        Inr (CheckResult 7 (lit ''Winning Ads (Test Auction)'') FAIL
               (lit ''HTTP '' @ str_int (status_code resp) @ lit '' '' @ em_dash
                  @ lit '' auction engine may be misconfigured or client '' @ quoted client_name
                  @ lit '' is not provisioned''))
      else
        raise_bind (resp_json resp) (\<lambda>data.
        raise_bind (py_get data (lit ''sponsored_listings'') (JArr [])) (\<lambda>listings.
        raise_bind (py_len listings) (\<lambda>count.
          Inr (CheckResult 7 (lit ''Winning Ads (Test Auction)'') PASS
                 (if count \<noteq> 0
                  then lit ''Auction responded OK '' @ em_dash @ lit '' '' @ str_nat count
                         @ lit '' sponsored listing(s) returned''
                  else lit ''Auction responded OK '' @ em_dash
                         @ lit '' 0 listings (expected with empty bidders)''))))))"

definition auction_body :: "pystr \<Rightarrow> pystr \<Rightarrow> (pystr \<times> json) list" where
  "auction_body client_name site_id =
     [(lit ''client_name'', JStr client_name),
      (lit ''site_id'', JStr site_id),
      (lit ''slots_available'', JInt 1),
      (lit ''max_requested'', JInt 1),
      (lit ''user'', JObj [(lit ''guid'', JStr (lit ''healthcheck-test-user''))]),
      (lit ''bidders'', JArr [])]"

definition check_winning_ads ::
  "client \<Rightarrow> pystr \<Rightarrow> pystr \<Rightarrow> pystr option \<Rightarrow> CheckResult \<times> client" where
  "check_winning_ads c client_name site_id experience_name =
     (let url = lit ''https://'' @ client_name @ lit ''.koddi.io/auction-engine/winning_ads'';
          body = auction_body client_name site_id;
          body = (case experience_name of
                    None \<Rightarrow> body
                  | Some e \<Rightarrow> body @ [(lit ''experience_name'', JStr e)]);
          (out, c') = make_request c (lit ''POST'') url None (Some (JObj body))
      in (case raise_bind out (check_winning_ads_body client_name) of
            Inr r \<Rightarrow> r
          | Inl TimeoutException \<Rightarrow>
              CheckResult 7 (lit ''Winning Ads (Test Auction)'') FAIL (lit ''Request timed out'')
          | Inl ConnectError \<Rightarrow>
              CheckResult 7 (lit ''Winning Ads (Test Auction)'') FAIL
                (lit ''Connection error '' @ em_dash @ lit '' cannot reach '' @ client_name
                   @ lit ''.koddi.io'')
          | Inl (Exception exc) \<Rightarrow>
              CheckResult 7 (lit ''Winning Ads (Test Auction)'') FAIL
                (lit ''Unexpected error: '' @ exc),
          c'))"

section \<open>The checks of the web front end (app.py)\<close>

text \<open>
  app.py repeats the seven checks.  Checks 1 and 2 are the same code as above.  Checks
  3 to 6 differ from the terminal's in the text of their warnings, and Check 7 in
  when it sends \<open>experience_name\<close> (\<open>if experience_name:\<close>); they are modelled
  again here, under the prefix \<open>app_\<close>.
\<close>

definition app_check_campaigns_body :: "response \<Rightarrow> exn + CheckResult" where
  "app_check_campaigns_body resp =
     raise_bind (resp_json resp) (\<lambda>data.
     raise_bind (py_get data (lit ''status'') JNull) (\<lambda>st.
       if st \<noteq> JStr (lit ''success'') then
         raise_bind (error_fields data) (\<lambda>(error_code, error_msg).
           Inr (CheckResult 3 (lit ''Campaigns Report'') FAIL
                  (lit ''Error '' @ py_str error_code @ lit '': '' @ py_str error_msg)))
       else
         raise_bind (py_get data (lit ''result'') (JObj [])) (\<lambda>result.
         raise_bind (py_get result (lit ''campaigns'') (JArr [])) (\<lambda>campaigns.
         raise_bind (py_len campaigns) (\<lambda>n.
         raise_bind (py_get result (lit ''total'') (JInt (int n))) (\<lambda>total.
           if py_eq_zero total then
             Inr (CheckResult 3 (lit ''Campaigns Report'') WARN
                    (lit ''Zero campaigns found for this advertiser''))
           else
             raise_bind (py_iter campaigns) (\<lambda>cs.
             raise_bind (for_each campaign_line cs) (\<lambda>ls.
               Inr (CheckResult 3 (lit ''Campaigns Report'') PASS
                      (join (lit [CHR 0x0A])
                         ((lit ''Found '' @ py_str total @ lit '' campaign(s)'') # ls)))))))))))"

definition app_check_campaigns ::
  "client \<Rightarrow> pystr \<Rightarrow> json \<Rightarrow> int \<Rightarrow> int \<Rightarrow> CheckResult \<times> client" where
  "app_check_campaigns c base_url token member_group_id advertiser_id =
     (let url = base_url @ lit ''/member_groups/'' @ str_int member_group_id
                  @ lit ''/advertisers/'' @ str_int advertiser_id @ lit ''/campaigns_report'';
          (out, c') = make_request c (lit ''POST'') url (Some token)
                        (Some (JObj [(lit ''pagination'', JObj [(lit ''start'', JInt 0)])]))
      in (case raise_bind out app_check_campaigns_body of
            Inr r \<Rightarrow> r
          | Inl TimeoutException \<Rightarrow>
              CheckResult 3 (lit ''Campaigns Report'') FAIL (lit ''Request timed out'')
          | Inl ConnectError \<Rightarrow>
              CheckResult 3 (lit ''Campaigns Report'') FAIL (lit ''Connection error'')
          | Inl (Exception exc) \<Rightarrow>
              CheckResult 3 (lit ''Campaigns Report'') FAIL (lit ''Unexpected error: '' @ exc),
          c'))"

definition app_check_entity_failures_body :: "response \<Rightarrow> exn + CheckResult" where
  "app_check_entity_failures_body resp =
     raise_bind (resp_json resp) (\<lambda>data.
     raise_bind (py_get data (lit ''status'') JNull) (\<lambda>st.
       if st \<noteq> JStr (lit ''success'') then
         raise_bind (error_fields data) (\<lambda>(error_code, error_msg).
           Inr (CheckResult 4 (lit ''Entity Registration Failures'') FAIL
                  (lit ''Error '' @ py_str error_code @ lit '': '' @ py_str error_msg)))
       else
         raise_bind (py_get data (lit ''result'') (JObj [])) (\<lambda>result.
         raise_bind (py_get result (lit ''total'') (JInt 0)) (\<lambda>total.
           if py_eq_zero total then
             Inr (CheckResult 4 (lit ''Entity Registration Failures'') PASS
                    (lit ''No entity registration failures''))
           else
             raise_bind (py_get result (lit ''entity_registrations'') (JArr [])) (\<lambda>regs.
             raise_bind (py_first5 regs) (\<lambda>failures.
             raise_bind (py_len failures) (\<lambda>n.
             raise_bind (py_iter failures) (\<lambda>fs.
             raise_bind (for_each failure_line fs) (\<lambda>ls.
               Inr (CheckResult 4 (lit ''Entity Registration Failures'') WARN
                      (join (lit [CHR 0x0A])
                         ((py_str total
                             @ lit '' registration failure(s) found. First '' @ str_nat n @ lit '':'')
                          # ls))))))))))))"

definition app_check_entity_failures ::
  "client \<Rightarrow> pystr \<Rightarrow> json \<Rightarrow> int \<Rightarrow> int \<Rightarrow> CheckResult \<times> client" where
  "app_check_entity_failures c base_url token member_group_id advertiser_id =
     (let url = base_url @ lit ''/member_groups/'' @ str_int member_group_id
                  @ lit ''/advertisers/'' @ str_int advertiser_id
                  @ lit ''/entity_registrations/failed/report'';
          (out, c') = make_request c (lit ''POST'') url (Some token)
                        (Some (JObj [(lit ''pagination'',
                                      JObj [(lit ''count'', JInt 50), (lit ''start'', JInt 0)])]))
      in (case raise_bind out app_check_entity_failures_body of
            Inr r \<Rightarrow> r
          | Inl TimeoutException \<Rightarrow>
              CheckResult 4 (lit ''Entity Registration Failures'') FAIL (lit ''Request timed out'')
          | Inl ConnectError \<Rightarrow>
              CheckResult 4 (lit ''Entity Registration Failures'') FAIL (lit ''Connection error'')
          | Inl (Exception exc) \<Rightarrow>
              CheckResult 4 (lit ''Entity Registration Failures'') FAIL
                (lit ''Unexpected error: '' @ exc),
          c'))"

definition app_check_active_bidders_body :: "response \<Rightarrow> exn + CheckResult" where
  "app_check_active_bidders_body resp =
     raise_bind (resp_json resp) (\<lambda>data.
     raise_bind (py_get data (lit ''status'') JNull) (\<lambda>st.
       if st \<noteq> JStr (lit ''success'') then
         raise_bind (error_fields data) (\<lambda>(error_code, error_msg).
           Inr (CheckResult 5 (lit ''Active Bidders Cache'') FAIL
                  (lit ''Error '' @ py_str error_code @ lit '': '' @ py_str error_msg)))
       else
         raise_bind (py_get data (lit ''result'') (JObj [])) (\<lambda>result.
         raise_bind (py_get result (lit ''active_bidders'') (JArr [])) (\<lambda>bidders.
           if \<not> py_truth bidders then
             Inr (CheckResult 5 (lit ''Active Bidders Cache'') WARN
                    (lit ''Active bidders list is empty '' @ em_dash
                       @ lit '' no ad groups are active''))
           else
             raise_bind (py_len bidders) (\<lambda>n.
               Inr (CheckResult 5 (lit ''Active Bidders Cache'') PASS
                      (str_nat n @ lit '' active bidder(s) in cache'')))))))"

definition app_check_active_bidders ::
  "client \<Rightarrow> pystr \<Rightarrow> json \<Rightarrow> int \<Rightarrow> CheckResult \<times> client" where
  "app_check_active_bidders c base_url token member_group_id =
     (let url = base_url @ lit ''/member_groups/'' @ str_int member_group_id
                  @ lit ''/active_bidders'';
          (out, c') = make_request c (lit ''GET'') url (Some token) None
      in (case raise_bind out app_check_active_bidders_body of
            Inr r \<Rightarrow> r
          | Inl TimeoutException \<Rightarrow>
              CheckResult 5 (lit ''Active Bidders Cache'') FAIL (lit ''Request timed out'')
          | Inl ConnectError \<Rightarrow>
              CheckResult 5 (lit ''Active Bidders Cache'') FAIL (lit ''Connection error'')
          | Inl (Exception exc) \<Rightarrow>
              CheckResult 5 (lit ''Active Bidders Cache'') FAIL (lit ''Unexpected error: '' @ exc),
          c'))"

definition app_check_attributable_entities_body :: "response \<Rightarrow> exn + CheckResult" where
  "app_check_attributable_entities_body resp =
     raise_bind (resp_json resp) (\<lambda>data.
     raise_bind (py_get data (lit ''status'') JNull) (\<lambda>st.
       if st \<noteq> JStr (lit ''success'') then
         raise_bind (error_fields data) (\<lambda>(error_code, error_msg).
           Inr (CheckResult 6 (lit ''Attributable Entities Cache'') FAIL
                  (lit ''Error '' @ py_str error_code @ lit '': '' @ py_str error_msg)))
       else
         raise_bind (py_get data (lit ''result'') (JObj [])) (\<lambda>result.
         raise_bind (py_get result (lit ''attributable_entities'') (JArr [])) (\<lambda>entities.
           if \<not> py_truth entities then
             Inr (CheckResult 6 (lit ''Attributable Entities Cache'') WARN
                    (lit ''No attributable entities '' @ em_dash
                       @ lit '' conversions won'' @ [39] @ lit ''t attribute''))
           else
             raise_bind (py_len entities) (\<lambda>n.
               Inr (CheckResult 6 (lit ''Attributable Entities Cache'') PASS
                      (str_nat n @ lit '' attributable entit(ies) in cache'')))))))"

definition app_check_attributable_entities ::
  "client \<Rightarrow> pystr \<Rightarrow> json \<Rightarrow> int \<Rightarrow> CheckResult \<times> client" where
  "app_check_attributable_entities c base_url token member_group_id =
     (let url = base_url @ lit ''/member_groups/'' @ str_int member_group_id
                  @ lit ''/attributable_entities'';
          (out, c') = make_request c (lit ''GET'') url (Some token) None
      in (case raise_bind out app_check_attributable_entities_body of
            Inr r \<Rightarrow> r
          | Inl TimeoutException \<Rightarrow>
              CheckResult 6 (lit ''Attributable Entities Cache'') FAIL (lit ''Request timed out'')
          | Inl ConnectError \<Rightarrow>
              CheckResult 6 (lit ''Attributable Entities Cache'') FAIL (lit ''Connection error'')
          | Inl (Exception exc) \<Rightarrow>
              CheckResult 6 (lit ''Attributable Entities Cache'') FAIL
                (lit ''Unexpected error: '' @ exc),
          c'))"

definition app_check_winning_ads ::
  "client \<Rightarrow> pystr \<Rightarrow> pystr \<Rightarrow> pystr option \<Rightarrow> CheckResult \<times> client" where
  "app_check_winning_ads c client_name site_id experience_name =
     (let url = lit ''https://'' @ client_name @ lit ''.koddi.io/auction-engine/winning_ads'';
          body = auction_body client_name site_id;
          body = (case experience_name of
                    None \<Rightarrow> body
                  | Some e \<Rightarrow> if e \<noteq> [] then body @ [(lit ''experience_name'', JStr e)] else body);
          (out, c') = make_request c (lit ''POST'') url None (Some (JObj body))
      in (case raise_bind out (check_winning_ads_body client_name) of
            Inr r \<Rightarrow> r
          | Inl TimeoutException \<Rightarrow>
              CheckResult 7 (lit ''Winning Ads (Test Auction)'') FAIL (lit ''Request timed out'')
          | Inl ConnectError \<Rightarrow>
              CheckResult 7 (lit ''Winning Ads (Test Auction)'') FAIL
                (lit ''Connection error '' @ em_dash @ lit '' cannot reach '' @ client_name
                   @ lit ''.koddi.io'')
          | Inl (Exception exc) \<Rightarrow>
              CheckResult 7 (lit ''Winning Ads (Test Auction)'') FAIL
                (lit ''Unexpected error: '' @ exc),
          c'))"

section \<open>The orchestrators\<close>








section \<open>Vocabulary of the properties\<close>

text \<open>
  The call each check issues, read off its \<open>make_request\<close>: the \<open>Authorization\<close> header
  is set when the token is truthy, and Check 1 and Check 7 pass no token.
\<close>

definition auth_headers :: "json \<Rightarrow> (pystr \<times> json) list" where
  "auth_headers token = (if py_truth token then [(lit ''Authorization'', token)] else [])"

definition login_call :: "pystr \<Rightarrow> pystr \<Rightarrow> pystr \<Rightarrow> int \<Rightarrow> http_call" where
  "login_call base_url email password member_group_id =
     POST (base_url @ lit ''/session/login'') []
       (Some (JObj [(lit ''email'', JStr email), (lit ''password'', JStr password),
                    (lit ''member_group_id'', JInt member_group_id)]))"

definition advertiser_call :: "pystr \<Rightarrow> json \<Rightarrow> int \<Rightarrow> int \<Rightarrow> http_call" where
  "advertiser_call base_url token member_group_id advertiser_id =
     GET (base_url @ lit ''/member_groups/'' @ str_int member_group_id
            @ lit ''/advertisers/'' @ str_int advertiser_id)
       (auth_headers token)"

definition campaigns_call :: "pystr \<Rightarrow> json \<Rightarrow> int \<Rightarrow> int \<Rightarrow> http_call" where
  "campaigns_call base_url token member_group_id advertiser_id =
     POST (base_url @ lit ''/member_groups/'' @ str_int member_group_id
             @ lit ''/advertisers/'' @ str_int advertiser_id @ lit ''/campaigns_report'')
       (auth_headers token)
       (Some (JObj [(lit ''pagination'', JObj [(lit ''start'', JInt 0)])]))"

definition entity_failures_call :: "pystr \<Rightarrow> json \<Rightarrow> int \<Rightarrow> int \<Rightarrow> http_call" where
  "entity_failures_call base_url token member_group_id advertiser_id =
     POST (base_url @ lit ''/member_groups/'' @ str_int member_group_id
             @ lit ''/advertisers/'' @ str_int advertiser_id
             @ lit ''/entity_registrations/failed/report'')
       (auth_headers token)
       (Some (JObj [(lit ''pagination'',
                     JObj [(lit ''count'', JInt 50), (lit ''start'', JInt 0)])]))"

definition active_bidders_call :: "pystr \<Rightarrow> json \<Rightarrow> int \<Rightarrow> http_call" where
  "active_bidders_call base_url token member_group_id =
     GET (base_url @ lit ''/member_groups/'' @ str_int member_group_id @ lit ''/active_bidders'')
       (auth_headers token)"

definition attributable_entities_call :: "pystr \<Rightarrow> json \<Rightarrow> int \<Rightarrow> http_call" where
  "attributable_entities_call base_url token member_group_id =
     GET (base_url @ lit ''/member_groups/'' @ str_int member_group_id
            @ lit ''/attributable_entities'')
       (auth_headers token)"

definition auction_call :: "pystr \<Rightarrow> pystr \<Rightarrow> pystr option \<Rightarrow> http_call" where
  "auction_call client_name site_id experience_name =
     POST (lit ''https://'' @ client_name @ lit ''.koddi.io/auction-engine/winning_ads'') []
       (Some (JObj (auction_body client_name site_id
                      @ (case experience_name of
                           None \<Rightarrow> []
                         | Some e \<Rightarrow> [(lit ''experience_name'', JStr e)]))))"

definition app_auction_call :: "pystr \<Rightarrow> pystr \<Rightarrow> pystr option \<Rightarrow> http_call" where
  "app_auction_call client_name site_id experience_name =
     POST (lit ''https://'' @ client_name @ lit ''.koddi.io/auction-engine/winning_ads'') []
       (Some (JObj (auction_body client_name site_id
                      @ (case experience_name of
                           None \<Rightarrow> []
                         | Some e \<Rightarrow> if e \<noteq> [] then [(lit ''experience_name'', JStr e)] else []))))"

text \<open>
  What the three \<open>except\<close> clauses of checks 2 to 7 make of a \<open>try\<close> block's outcome,
  given the check's number, its name and its text for a connection error.
\<close>

definition handled :: "int \<Rightarrow> pystr \<Rightarrow> pystr \<Rightarrow> exn + CheckResult \<Rightarrow> CheckResult" where
  "handled n nm conn out =
     (case out of
        Inr r \<Rightarrow> r
      | Inl TimeoutException \<Rightarrow> CheckResult n nm FAIL (lit ''Request timed out'')
      | Inl ConnectError \<Rightarrow> CheckResult n nm FAIL conn
      | Inl (Exception exc) \<Rightarrow> CheckResult n nm FAIL (lit ''Unexpected error: '' @ exc))"



text \<open>Python's \<open>sub in text\<close> on strings.\<close>

fun starts_with :: "pystr \<Rightarrow> pystr \<Rightarrow> bool" where
  "starts_with [] ys = True"
| "starts_with (x # xs) [] = False"
| "starts_with (x # xs) (y # ys) = (x = y \<and> starts_with xs ys)"

fun contains :: "pystr \<Rightarrow> pystr \<Rightarrow> bool" where
  "contains sub [] = (sub = [])"
| "contains sub (y # ys) = (starts_with sub (y # ys) \<or> contains sub ys)"


text \<open>
  How the terminal words a result of the web front end: a warning carries the
  warning sign and two spaces in front.
\<close>

definition terminal_wording :: "CheckResult \<Rightarrow> CheckResult" where
  "terminal_wording r =
     (if status r = WARN then r\<lparr>details := warning_sign @ lit ''  '' @ details r\<rparr> else r)"

section \<open>Basic facts\<close>

lemma lit_eq_iff [simp]: "lit a = lit b \<longleftrightarrow> a = b"
  unfolding lit_def using inj_of_char [where ?'a = nat] by (simp add: inj_map_eq_map)

lemma lit_Nil_iff [simp]: "lit s = [] \<longleftrightarrow> s = []" "[] = lit s \<longleftrightarrow> s = []"
  by (auto simp: lit_def)

lemma raise_bind_Inl [simp]: "raise_bind (Inl e) f = Inl e"
  by (simp add: raise_bind_def)

lemma raise_bind_Inr [simp]: "raise_bind (Inr v) f = f v"
  by (simp add: raise_bind_def)

lemma raise_bindE:
  assumes "raise_bind m f = Inr r"
  obtains v where "m = Inr v" and "f v = Inr r"
  using assms by (cases m) (simp_all add: raise_bind_def)

lemma CheckResult_sel [simp]:
  "number (CheckResult n nm st d) = n"
  "name (CheckResult n nm st d) = nm"
  "status (CheckResult n nm st d) = st"
  "details (CheckResult n nm st d) = d"
  "extra (CheckResult n nm st d) = []"
  by (simp_all add: CheckResult_def)

lemma make_request_GET:
  "make_request c (lit ''GET'') url (Some token) body = issue c (GET url (auth_headers token))"
  by (simp add: make_request_def auth_headers_def)

lemma make_request_POST:
  "make_request c (lit ''POST'') url (Some token) body = issue c (POST url (auth_headers token) body)"
  by (simp add: make_request_def auth_headers_def)

lemma make_request_POST_None:
  "make_request c (lit ''POST'') url None body = issue c (POST url [] body)"
  by (simp add: make_request_def)


lemma Client_sel [simp]: "server (Client net t) = net" "sent (Client net t) = []"
  by (simp_all add: Client_def)

lemma handled_simps [simp]:
  "handled n nm conn (Inr r) = r"
  "handled n nm conn (Inl TimeoutException) = CheckResult n nm FAIL (lit ''Request timed out'')"
  "handled n nm conn (Inl ConnectError) = CheckResult n nm FAIL conn"
  "handled n nm conn (Inl (Exception exc)) = CheckResult n nm FAIL (lit ''Unexpected error: '' @ exc)"
  by (simp_all add: handled_def)

subsection \<open>A check is one call, then the \<open>try\<close> block through the \<open>except\<close> clauses\<close>

lemma check_auth_shape:
  "check_auth c base_url email password mg =
     (case raise_bind (server c (sent c) (login_call base_url email password mg)) check_auth_body of
        Inr r \<Rightarrow> r
      | Inl TimeoutException \<Rightarrow>
          (CheckResult 1 (lit ''Authentication'') FAIL (lit ''Request timed out''), None)
      | Inl ConnectError \<Rightarrow>
          (CheckResult 1 (lit ''Authentication'') FAIL
             (lit ''Connection error '' @ em_dash @ lit '' cannot reach API''), None)
      | Inl (Exception exc) \<Rightarrow>
          (CheckResult 1 (lit ''Authentication'') FAIL (lit ''Unexpected error: '' @ exc), None),
      c\<lparr>sent := sent c @ [login_call base_url email password mg]\<rparr>)"
  by (simp add: check_auth_def make_request_POST_None issue_def login_call_def)

lemma check_advertiser_shape:
  "check_advertiser c base_url token mg adv =
     (handled 2 (lit ''Advertiser Exists'') (lit ''Connection error'')
        (raise_bind (server c (sent c) (advertiser_call base_url token mg adv)) check_advertiser_body),
      c\<lparr>sent := sent c @ [advertiser_call base_url token mg adv]\<rparr>)"
  by (simp add: check_advertiser_def make_request_GET issue_def advertiser_call_def Let_def handled_def)

lemma check_campaigns_shape:
  "check_campaigns c base_url token mg adv =
     (handled 3 (lit ''Campaigns Report'') (lit ''Connection error'')
        (raise_bind (server c (sent c) (campaigns_call base_url token mg adv)) check_campaigns_body),
      c\<lparr>sent := sent c @ [campaigns_call base_url token mg adv]\<rparr>)"
  by (simp add: check_campaigns_def make_request_POST issue_def campaigns_call_def Let_def handled_def)

lemma app_check_campaigns_shape:
  "app_check_campaigns c base_url token mg adv =
     (handled 3 (lit ''Campaigns Report'') (lit ''Connection error'')
        (raise_bind (server c (sent c) (campaigns_call base_url token mg adv)) app_check_campaigns_body),
      c\<lparr>sent := sent c @ [campaigns_call base_url token mg adv]\<rparr>)"
  by (simp add: app_check_campaigns_def make_request_POST issue_def campaigns_call_def Let_def handled_def)

lemma check_entity_failures_shape:
  "check_entity_failures c base_url token mg adv =
     (handled 4 (lit ''Entity Registration Failures'') (lit ''Connection error'')
        (raise_bind (server c (sent c) (entity_failures_call base_url token mg adv)) check_entity_failures_body),
      c\<lparr>sent := sent c @ [entity_failures_call base_url token mg adv]\<rparr>)"
  by (simp add: check_entity_failures_def make_request_POST issue_def entity_failures_call_def Let_def handled_def)

lemma app_check_entity_failures_shape:
  "app_check_entity_failures c base_url token mg adv =
     (handled 4 (lit ''Entity Registration Failures'') (lit ''Connection error'')
        (raise_bind (server c (sent c) (entity_failures_call base_url token mg adv)) app_check_entity_failures_body),
      c\<lparr>sent := sent c @ [entity_failures_call base_url token mg adv]\<rparr>)"
  by (simp add: app_check_entity_failures_def make_request_POST issue_def entity_failures_call_def Let_def handled_def)

lemma check_active_bidders_shape:
  "check_active_bidders c base_url token mg =
     (handled 5 (lit ''Active Bidders Cache'') (lit ''Connection error'')
        (raise_bind (server c (sent c) (active_bidders_call base_url token mg)) check_active_bidders_body),
      c\<lparr>sent := sent c @ [active_bidders_call base_url token mg]\<rparr>)"
  by (simp add: check_active_bidders_def make_request_GET issue_def active_bidders_call_def Let_def handled_def)

lemma app_check_active_bidders_shape:
  "app_check_active_bidders c base_url token mg =
     (handled 5 (lit ''Active Bidders Cache'') (lit ''Connection error'')
        (raise_bind (server c (sent c) (active_bidders_call base_url token mg)) app_check_active_bidders_body),
      c\<lparr>sent := sent c @ [active_bidders_call base_url token mg]\<rparr>)"
  by (simp add: app_check_active_bidders_def make_request_GET issue_def active_bidders_call_def Let_def handled_def)

lemma check_attributable_entities_shape:
  "check_attributable_entities c base_url token mg =
     (handled 6 (lit ''Attributable Entities Cache'') (lit ''Connection error'')
        (raise_bind (server c (sent c) (attributable_entities_call base_url token mg)) check_attributable_entities_body),
      c\<lparr>sent := sent c @ [attributable_entities_call base_url token mg]\<rparr>)"
  by (simp add: check_attributable_entities_def make_request_GET issue_def attributable_entities_call_def Let_def handled_def)

lemma app_check_attributable_entities_shape:
  "app_check_attributable_entities c base_url token mg =
     (handled 6 (lit ''Attributable Entities Cache'') (lit ''Connection error'')
        (raise_bind (server c (sent c) (attributable_entities_call base_url token mg)) app_check_attributable_entities_body),
      c\<lparr>sent := sent c @ [attributable_entities_call base_url token mg]\<rparr>)"
  by (simp add: app_check_attributable_entities_def make_request_GET issue_def attributable_entities_call_def Let_def handled_def)

lemma check_winning_ads_shape:
  "check_winning_ads c client_name site_id experience_name =
     (handled 7 (lit ''Winning Ads (Test Auction)'')
        (lit ''Connection error '' @ em_dash @ lit '' cannot reach '' @ client_name @ lit ''.koddi.io'')
        (raise_bind (server c (sent c) (auction_call client_name site_id experience_name))
           (check_winning_ads_body client_name)),
      c\<lparr>sent := sent c @ [auction_call client_name site_id experience_name]\<rparr>)"
  by (cases experience_name)
     (simp_all add: check_winning_ads_def make_request_POST_None issue_def auction_call_def Let_def handled_def)

lemma app_check_winning_ads_shape:
  "app_check_winning_ads c client_name site_id experience_name =
     (handled 7 (lit ''Winning Ads (Test Auction)'')
        (lit ''Connection error '' @ em_dash @ lit '' cannot reach '' @ client_name @ lit ''.koddi.io'')
        (raise_bind (server c (sent c) (app_auction_call client_name site_id experience_name))
           (check_winning_ads_body client_name)),
      c\<lparr>sent := sent c @ [app_auction_call client_name site_id experience_name]\<rparr>)"
  by (cases experience_name)
     (simp_all add: app_check_winning_ads_def make_request_POST_None issue_def app_auction_call_def Let_def handled_def)

subsection \<open>What a \<open>try\<close> block returns\<close>


lemma check_auth_body_result:
  assumes "check_auth_body resp = Inr (r, t)"
  shows "number r = 1" and "name r = lit ''Authentication''"
    and "status r = PASS \<or> status r = FAIL"
    and "t = None \<longleftrightarrow> status r = FAIL"
    and "t = Some tok \<Longrightarrow> py_truth tok"
  using assms unfolding check_auth_body_def
  by (auto elim!: raise_bindE split: if_splits prod.splits)

lemma check_advertiser_body_result:
  assumes "check_advertiser_body resp = Inr r"
  shows "number r = 2" and "name r = lit ''Advertiser Exists''" and "status r \<noteq> SKIPPED"
  using assms unfolding check_advertiser_body_def
  by (auto elim!: raise_bindE split: if_splits prod.splits)

lemma check_campaigns_body_result:
  assumes "check_campaigns_body resp = Inr r"
  shows "number r = 3" and "name r = lit ''Campaigns Report''" and "status r \<noteq> SKIPPED"
  using assms unfolding check_campaigns_body_def
  by (auto elim!: raise_bindE split: if_splits prod.splits)

lemma app_check_campaigns_body_result:
  assumes "app_check_campaigns_body resp = Inr r"
  shows "number r = 3" and "name r = lit ''Campaigns Report''" and "status r \<noteq> SKIPPED"
  using assms unfolding app_check_campaigns_body_def
  by (auto elim!: raise_bindE split: if_splits prod.splits)

lemma check_entity_failures_body_result:
  assumes "check_entity_failures_body resp = Inr r"
  shows "number r = 4" and "name r = lit ''Entity Registration Failures''" and "status r \<noteq> SKIPPED"
  using assms unfolding check_entity_failures_body_def
  by (auto elim!: raise_bindE split: if_splits prod.splits)

lemma app_check_entity_failures_body_result:
  assumes "app_check_entity_failures_body resp = Inr r"
  shows "number r = 4" and "name r = lit ''Entity Registration Failures''" and "status r \<noteq> SKIPPED"
  using assms unfolding app_check_entity_failures_body_def
  by (auto elim!: raise_bindE split: if_splits prod.splits)

lemma check_active_bidders_body_result:
  assumes "check_active_bidders_body resp = Inr r"
  shows "number r = 5" and "name r = lit ''Active Bidders Cache''" and "status r \<noteq> SKIPPED"
  using assms unfolding check_active_bidders_body_def
  by (auto elim!: raise_bindE split: if_splits prod.splits)

lemma app_check_active_bidders_body_result:
  assumes "app_check_active_bidders_body resp = Inr r"
  shows "number r = 5" and "name r = lit ''Active Bidders Cache''" and "status r \<noteq> SKIPPED"
  using assms unfolding app_check_active_bidders_body_def
  by (auto elim!: raise_bindE split: if_splits prod.splits)

lemma check_attributable_entities_body_result:
  assumes "check_attributable_entities_body resp = Inr r"
  shows "number r = 6" and "name r = lit ''Attributable Entities Cache''" and "status r \<noteq> SKIPPED"
  using assms unfolding check_attributable_entities_body_def
  by (auto elim!: raise_bindE split: if_splits prod.splits)

lemma app_check_attributable_entities_body_result:
  assumes "app_check_attributable_entities_body resp = Inr r"
  shows "number r = 6" and "name r = lit ''Attributable Entities Cache''" and "status r \<noteq> SKIPPED"
  using assms unfolding app_check_attributable_entities_body_def
  by (auto elim!: raise_bindE split: if_splits prod.splits)

lemma check_winning_ads_body_result:
  assumes "check_winning_ads_body cn resp = Inr r"
  shows "number r = 7" and "name r = lit ''Winning Ads (Test Auction)''" and "status r \<noteq> SKIPPED"
  using assms unfolding check_winning_ads_body_def
  by (auto elim!: raise_bindE split: if_splits prod.splits)


subsection \<open>What a check returns\<close>

lemma handled_result:
  assumes "\<And>r. out = Inr r \<Longrightarrow> number r = n \<and> name r = nm \<and> status r \<noteq> SKIPPED"
  shows "number (handled n nm conn out) = n"
    and "name (handled n nm conn out) = nm"
    and "status (handled n nm conn out) \<noteq> SKIPPED"
proof -
  show "number (handled n nm conn out) = n"
    using assms by (cases out rule: sum.exhaust; cases "projl out" rule: exn.exhaust) auto
  show "name (handled n nm conn out) = nm"
    using assms by (cases out rule: sum.exhaust; cases "projl out" rule: exn.exhaust) auto
  show "status (handled n nm conn out) \<noteq> SKIPPED"
    using assms by (cases out rule: sum.exhaust; cases "projl out" rule: exn.exhaust) auto
qed

lemma raise_bind_Inr_D:
  "raise_bind m f = Inr r \<Longrightarrow> \<exists>v. f v = Inr r"
  by (cases m) auto

lemma check_advertiser_result [simp]:
  "number (fst (check_advertiser c base_url token mg adv)) = 2"
  "name (fst (check_advertiser c base_url token mg adv)) = lit ''Advertiser Exists''"
  "status (fst (check_advertiser c base_url token mg adv)) \<noteq> SKIPPED"
  "snd (check_advertiser c base_url token mg adv) = c\<lparr>sent := sent c @ [advertiser_call base_url token mg adv]\<rparr>"
  unfolding check_advertiser_shape fst_conv snd_conv
  by (rule handled_result, blast dest: raise_bind_Inr_D check_advertiser_body_result)+ simp

lemma check_campaigns_result [simp]:
  "number (fst (check_campaigns c base_url token mg adv)) = 3"
  "name (fst (check_campaigns c base_url token mg adv)) = lit ''Campaigns Report''"
  "status (fst (check_campaigns c base_url token mg adv)) \<noteq> SKIPPED"
  "snd (check_campaigns c base_url token mg adv) = c\<lparr>sent := sent c @ [campaigns_call base_url token mg adv]\<rparr>"
  unfolding check_campaigns_shape fst_conv snd_conv
  by (rule handled_result, blast dest: raise_bind_Inr_D check_campaigns_body_result)+ simp

lemma app_check_campaigns_result [simp]:
  "number (fst (app_check_campaigns c base_url token mg adv)) = 3"
  "name (fst (app_check_campaigns c base_url token mg adv)) = lit ''Campaigns Report''"
  "status (fst (app_check_campaigns c base_url token mg adv)) \<noteq> SKIPPED"
  "snd (app_check_campaigns c base_url token mg adv) = c\<lparr>sent := sent c @ [campaigns_call base_url token mg adv]\<rparr>"
  unfolding app_check_campaigns_shape fst_conv snd_conv
  by (rule handled_result, blast dest: raise_bind_Inr_D app_check_campaigns_body_result)+ simp

lemma check_entity_failures_result [simp]:
  "number (fst (check_entity_failures c base_url token mg adv)) = 4"
  "name (fst (check_entity_failures c base_url token mg adv)) = lit ''Entity Registration Failures''"
  "status (fst (check_entity_failures c base_url token mg adv)) \<noteq> SKIPPED"
  "snd (check_entity_failures c base_url token mg adv) = c\<lparr>sent := sent c @ [entity_failures_call base_url token mg adv]\<rparr>"
  unfolding check_entity_failures_shape fst_conv snd_conv
  by (rule handled_result, blast dest: raise_bind_Inr_D check_entity_failures_body_result)+ simp

lemma app_check_entity_failures_result [simp]:
  "number (fst (app_check_entity_failures c base_url token mg adv)) = 4"
  "name (fst (app_check_entity_failures c base_url token mg adv)) = lit ''Entity Registration Failures''"
  "status (fst (app_check_entity_failures c base_url token mg adv)) \<noteq> SKIPPED"
  "snd (app_check_entity_failures c base_url token mg adv) = c\<lparr>sent := sent c @ [entity_failures_call base_url token mg adv]\<rparr>"
  unfolding app_check_entity_failures_shape fst_conv snd_conv
  by (rule handled_result, blast dest: raise_bind_Inr_D app_check_entity_failures_body_result)+ simp

lemma check_active_bidders_result [simp]:
  "number (fst (check_active_bidders c base_url token mg)) = 5"
  "name (fst (check_active_bidders c base_url token mg)) = lit ''Active Bidders Cache''"
  "status (fst (check_active_bidders c base_url token mg)) \<noteq> SKIPPED"
  "snd (check_active_bidders c base_url token mg) = c\<lparr>sent := sent c @ [active_bidders_call base_url token mg]\<rparr>"
  unfolding check_active_bidders_shape fst_conv snd_conv
  by (rule handled_result, blast dest: raise_bind_Inr_D check_active_bidders_body_result)+ simp

lemma app_check_active_bidders_result [simp]:
  "number (fst (app_check_active_bidders c base_url token mg)) = 5"
  "name (fst (app_check_active_bidders c base_url token mg)) = lit ''Active Bidders Cache''"
  "status (fst (app_check_active_bidders c base_url token mg)) \<noteq> SKIPPED"
  "snd (app_check_active_bidders c base_url token mg) = c\<lparr>sent := sent c @ [active_bidders_call base_url token mg]\<rparr>"
  unfolding app_check_active_bidders_shape fst_conv snd_conv
  by (rule handled_result, blast dest: raise_bind_Inr_D app_check_active_bidders_body_result)+ simp

lemma check_attributable_entities_result [simp]:
  "number (fst (check_attributable_entities c base_url token mg)) = 6"
  "name (fst (check_attributable_entities c base_url token mg)) = lit ''Attributable Entities Cache''"
  "status (fst (check_attributable_entities c base_url token mg)) \<noteq> SKIPPED"
  "snd (check_attributable_entities c base_url token mg) = c\<lparr>sent := sent c @ [attributable_entities_call base_url token mg]\<rparr>"
  unfolding check_attributable_entities_shape fst_conv snd_conv
  by (rule handled_result, blast dest: raise_bind_Inr_D check_attributable_entities_body_result)+ simp

lemma app_check_attributable_entities_result [simp]:
  "number (fst (app_check_attributable_entities c base_url token mg)) = 6"
  "name (fst (app_check_attributable_entities c base_url token mg)) = lit ''Attributable Entities Cache''"
  "status (fst (app_check_attributable_entities c base_url token mg)) \<noteq> SKIPPED"
  "snd (app_check_attributable_entities c base_url token mg) = c\<lparr>sent := sent c @ [attributable_entities_call base_url token mg]\<rparr>"
  unfolding app_check_attributable_entities_shape fst_conv snd_conv
  by (rule handled_result, blast dest: raise_bind_Inr_D app_check_attributable_entities_body_result)+ simp

lemma check_winning_ads_result [simp]:
  "number (fst (check_winning_ads c cn sid exp)) = 7"
  "name (fst (check_winning_ads c cn sid exp)) = lit ''Winning Ads (Test Auction)''"
  "status (fst (check_winning_ads c cn sid exp)) \<noteq> SKIPPED"
  "snd (check_winning_ads c cn sid exp) = c\<lparr>sent := sent c @ [auction_call cn sid exp]\<rparr>"
  unfolding check_winning_ads_shape fst_conv snd_conv
  by (rule handled_result, blast dest: raise_bind_Inr_D check_winning_ads_body_result)+ simp

lemma app_check_winning_ads_result [simp]:
  "number (fst (app_check_winning_ads c cn sid exp)) = 7"
  "name (fst (app_check_winning_ads c cn sid exp)) = lit ''Winning Ads (Test Auction)''"
  "status (fst (app_check_winning_ads c cn sid exp)) \<noteq> SKIPPED"
  "snd (app_check_winning_ads c cn sid exp) = c\<lparr>sent := sent c @ [app_auction_call cn sid exp]\<rparr>"
  unfolding app_check_winning_ads_shape fst_conv snd_conv
  by (rule handled_result, blast dest: raise_bind_Inr_D check_winning_ads_body_result)+ simp

lemma check_auth_result [simp]:
  "number (fst (fst (check_auth c base_url email password mg))) = 1"
  "name (fst (fst (check_auth c base_url email password mg))) = lit ''Authentication''"
  "status (fst (fst (check_auth c base_url email password mg))) \<noteq> SKIPPED"
  "snd (check_auth c base_url email password mg) = c\<lparr>sent := sent c @ [login_call base_url email password mg]\<rparr>"
proof -
  let ?out = "raise_bind (server c (sent c) (login_call base_url email password mg)) check_auth_body"
  have *: "\<And>r t. ?out = Inr (r, t) \<Longrightarrow> number r = 1 \<and> name r = lit ''Authentication'' \<and> status r \<noteq> SKIPPED"
    using check_auth_body_result by (fastforce dest: raise_bind_Inr_D)
  show "number (fst (fst (check_auth c base_url email password mg))) = 1"
    unfolding check_auth_shape using *
    by (cases ?out rule: sum.exhaust; cases "projl ?out" rule: exn.exhaust) auto
  show "name (fst (fst (check_auth c base_url email password mg))) = lit ''Authentication''"
    unfolding check_auth_shape using *
    by (cases ?out rule: sum.exhaust; cases "projl ?out" rule: exn.exhaust) auto
  show "status (fst (fst (check_auth c base_url email password mg))) \<noteq> SKIPPED"
    unfolding check_auth_shape using *
    by (cases ?out rule: sum.exhaust; cases "projl ?out" rule: exn.exhaust) auto
  show "snd (check_auth c base_url email password mg) = c\<lparr>sent := sent c @ [login_call base_url email password mg]\<rparr>"
    unfolding check_auth_shape by simp
qed



lemma skip_lambdas [simp]:
  "(\<lambda>(num, nm). CheckResult num nm SKIPPED d) = (\<lambda>p. CheckResult (fst p) (snd p) SKIPPED d)"
  by (simp add: fun_eq_iff)

subsection \<open>Reading a response\<close>




subsection \<open>The two front ends\<close>





lemma terminal_wording_simps [simp]:
  "terminal_wording (CheckResult n nm WARN d) = CheckResult n nm WARN (warning_sign @ lit ''  '' @ d)"
  "st \<noteq> WARN \<Longrightarrow> terminal_wording (CheckResult n nm st d) = CheckResult n nm st d"
  by (simp_all add: terminal_wording_def CheckResult_def)








lemma no_warning_bodies:
  "check_advertiser_body resp = Inr r \<Longrightarrow> status r \<noteq> WARN"
  "check_winning_ads_body cn resp = Inr r \<Longrightarrow> status r \<noteq> WARN"
  unfolding check_advertiser_body_def check_winning_ads_body_def
  by (auto elim!: raise_bindE split: if_splits prod.splits)

lemma handled_no_warning:
  assumes "\<And>r. out = Inr r \<Longrightarrow> status r \<noteq> WARN"
  shows "status (handled n nm conn out) \<noteq> WARN"
  using assms by (cases out rule: sum.exhaust; cases "projl out" rule: exn.exhaust) auto

lemma no_warning [simp]:
  "status (fst (fst (check_auth c base_url email password mg))) \<noteq> WARN"
  "status (fst (check_advertiser c base_url token mg adv)) \<noteq> WARN"
  "status (fst (check_winning_ads c cn sid exp)) \<noteq> WARN"
  "status (fst (app_check_winning_ads c cn sid exp)) \<noteq> WARN"
proof -
  let ?out = "raise_bind (server c (sent c) (login_call base_url email password mg)) check_auth_body"
  have *: "\<And>r t. ?out = Inr (r, t) \<Longrightarrow> status r \<noteq> WARN"
    using check_auth_body_result(3) by (fastforce dest: raise_bind_Inr_D)
  show "status (fst (fst (check_auth c base_url email password mg))) \<noteq> WARN"
    unfolding check_auth_shape using *
    by (cases ?out rule: sum.exhaust; cases "projl ?out" rule: exn.exhaust) auto
  show "status (fst (check_advertiser c base_url token mg adv)) \<noteq> WARN"
    unfolding check_advertiser_shape fst_conv
    by (rule handled_no_warning) (blast dest: raise_bind_Inr_D no_warning_bodies)
  show "status (fst (check_winning_ads c cn sid exp)) \<noteq> WARN"
    unfolding check_winning_ads_shape fst_conv
    by (rule handled_no_warning) (blast dest: raise_bind_Inr_D no_warning_bodies)
  show "status (fst (app_check_winning_ads c cn sid exp)) \<noteq> WARN"
    unfolding app_check_winning_ads_shape fst_conv
    by (rule handled_no_warning) (blast dest: raise_bind_Inr_D no_warning_bodies)
qed




lemma terminal_wording_sel [simp]:
  "number (terminal_wording r) = number r"
  "name (terminal_wording r) = name r"
  "status (terminal_wording r) = status r"
  by (simp_all add: terminal_wording_def)

subsection \<open>The verdict and the exit code\<close>





section \<open>Properties of the orchestrators\<close>











section \<open>Properties of the checks\<close>




text \<open>
  C7, as the code has it.  Whatever the \<open>try\<close> block of a check raises, from the
  transport or while the response is read, the check returns \<open>FAIL\<close>: "Request timed
  out" for a timeout, "Unexpected error: \{message\}" for any exception that is neither
  a timeout nor a connection failure, and for a connection failure "Connection error"
  in checks 2 to 6, "Connection error --- cannot reach API" in Check 1 (a fixed text,
  which names no host) and "Connection error --- cannot reach \{client\_name\}.koddi.io"
  in Check 7.  Every check function is total: no outcome of the block is left without a
  result.
\<close>

theorem exceptions_become_failures:
  "(let r = fst (check_auth c base_url email password mg);
        out = raise_bind (server c (sent c) (login_call base_url email password mg))
                check_auth_body
    in (out = Inl TimeoutException \<longrightarrow>
          r = (CheckResult 1 (lit ''Authentication'') FAIL (lit ''Request timed out''), None))
     \<and> (out = Inl ConnectError \<longrightarrow>
          r = (CheckResult 1 (lit ''Authentication'') FAIL
                 (lit ''Connection error '' @ em_dash @ lit '' cannot reach API''), None))
     \<and> (\<forall>exc. out = Inl (Exception exc) \<longrightarrow>
          r = (CheckResult 1 (lit ''Authentication'') FAIL (lit ''Unexpected error: '' @ exc), None)))
   \<and> (\<forall>(r, out, n, nm, conn) \<in> set
        [(fst (check_advertiser c base_url token mg adv),
          raise_bind (server c (sent c) (advertiser_call base_url token mg adv))
            check_advertiser_body,
          2, lit ''Advertiser Exists'', lit ''Connection error''),
         (fst (check_campaigns c base_url token mg adv),
          raise_bind (server c (sent c) (campaigns_call base_url token mg adv))
            check_campaigns_body,
          3, lit ''Campaigns Report'', lit ''Connection error''),
         (fst (app_check_campaigns c base_url token mg adv),
          raise_bind (server c (sent c) (campaigns_call base_url token mg adv))
            app_check_campaigns_body,
          3, lit ''Campaigns Report'', lit ''Connection error''),
         (fst (check_entity_failures c base_url token mg adv),
          raise_bind (server c (sent c) (entity_failures_call base_url token mg adv))
            check_entity_failures_body,
          4, lit ''Entity Registration Failures'', lit ''Connection error''),
         (fst (app_check_entity_failures c base_url token mg adv),
          raise_bind (server c (sent c) (entity_failures_call base_url token mg adv))
            app_check_entity_failures_body,
          4, lit ''Entity Registration Failures'', lit ''Connection error''),
         (fst (check_active_bidders c base_url token mg),
          raise_bind (server c (sent c) (active_bidders_call base_url token mg))
            check_active_bidders_body,
          5, lit ''Active Bidders Cache'', lit ''Connection error''),
         (fst (app_check_active_bidders c base_url token mg),
          raise_bind (server c (sent c) (active_bidders_call base_url token mg))
            app_check_active_bidders_body,
          5, lit ''Active Bidders Cache'', lit ''Connection error''),
         (fst (check_attributable_entities c base_url token mg),
          raise_bind (server c (sent c) (attributable_entities_call base_url token mg))
            check_attributable_entities_body,
          6, lit ''Attributable Entities Cache'', lit ''Connection error''),
         (fst (app_check_attributable_entities c base_url token mg),
          raise_bind (server c (sent c) (attributable_entities_call base_url token mg))
            app_check_attributable_entities_body,
          6, lit ''Attributable Entities Cache'', lit ''Connection error''),
         (fst (check_winning_ads c cn sid exp),
          raise_bind (server c (sent c) (auction_call cn sid exp)) (check_winning_ads_body cn),
          7, lit ''Winning Ads (Test Auction)'',
          lit ''Connection error '' @ em_dash @ lit '' cannot reach '' @ cn @ lit ''.koddi.io''),
         (fst (app_check_winning_ads c cn sid exp),
          raise_bind (server c (sent c) (app_auction_call cn sid exp)) (check_winning_ads_body cn),
          7, lit ''Winning Ads (Test Auction)'',
          lit ''Connection error '' @ em_dash @ lit '' cannot reach '' @ cn @ lit ''.koddi.io'')].
       (out = Inl TimeoutException \<longrightarrow> r = CheckResult n nm FAIL (lit ''Request timed out''))
     \<and> (out = Inl ConnectError \<longrightarrow> r = CheckResult n nm FAIL conn)
     \<and> (\<forall>exc. out = Inl (Exception exc) \<longrightarrow>
          r = CheckResult n nm FAIL (lit ''Unexpected error: '' @ exc)))"
proof (intro conjI)
  show "let r = fst (check_auth c base_url email password mg);
        out = raise_bind (server c (sent c) (login_call base_url email password mg))
                check_auth_body
    in (out = Inl TimeoutException \<longrightarrow>
          r = (CheckResult 1 (lit ''Authentication'') FAIL (lit ''Request timed out''), None))
     \<and> (out = Inl ConnectError \<longrightarrow>
          r = (CheckResult 1 (lit ''Authentication'') FAIL
                 (lit ''Connection error '' @ em_dash @ lit '' cannot reach API''), None))
     \<and> (\<forall>exc. out = Inl (Exception exc) \<longrightarrow>
          r = (CheckResult 1 (lit ''Authentication'') FAIL (lit ''Unexpected error: '' @ exc), None))"
    by (simp add: check_auth_shape Let_def)
next
  have h: "\<And>n nm conn out.
       (out = Inl TimeoutException \<longrightarrow>
          handled n nm conn out = CheckResult n nm FAIL (lit ''Request timed out''))
     \<and> (out = Inl ConnectError \<longrightarrow> handled n nm conn out = CheckResult n nm FAIL conn)
     \<and> (\<forall>exc. out = Inl (Exception exc) \<longrightarrow>
          handled n nm conn out = CheckResult n nm FAIL (lit ''Unexpected error: '' @ exc))"
    by simp
  show "\<forall>(r, out, n, nm, conn) \<in> set
        [(fst (check_advertiser c base_url token mg adv),
          raise_bind (server c (sent c) (advertiser_call base_url token mg adv))
            check_advertiser_body,
          2, lit ''Advertiser Exists'', lit ''Connection error''),
         (fst (check_campaigns c base_url token mg adv),
          raise_bind (server c (sent c) (campaigns_call base_url token mg adv))
            check_campaigns_body,
          3, lit ''Campaigns Report'', lit ''Connection error''),
         (fst (app_check_campaigns c base_url token mg adv),
          raise_bind (server c (sent c) (campaigns_call base_url token mg adv))
            app_check_campaigns_body,
          3, lit ''Campaigns Report'', lit ''Connection error''),
         (fst (check_entity_failures c base_url token mg adv),
          raise_bind (server c (sent c) (entity_failures_call base_url token mg adv))
            check_entity_failures_body,
          4, lit ''Entity Registration Failures'', lit ''Connection error''),
         (fst (app_check_entity_failures c base_url token mg adv),
          raise_bind (server c (sent c) (entity_failures_call base_url token mg adv))
            app_check_entity_failures_body,
          4, lit ''Entity Registration Failures'', lit ''Connection error''),
         (fst (check_active_bidders c base_url token mg),
          raise_bind (server c (sent c) (active_bidders_call base_url token mg))
            check_active_bidders_body,
          5, lit ''Active Bidders Cache'', lit ''Connection error''),
         (fst (app_check_active_bidders c base_url token mg),
          raise_bind (server c (sent c) (active_bidders_call base_url token mg))
            app_check_active_bidders_body,
          5, lit ''Active Bidders Cache'', lit ''Connection error''),
         (fst (check_attributable_entities c base_url token mg),
          raise_bind (server c (sent c) (attributable_entities_call base_url token mg))
            check_attributable_entities_body,
          6, lit ''Attributable Entities Cache'', lit ''Connection error''),
         (fst (app_check_attributable_entities c base_url token mg),
          raise_bind (server c (sent c) (attributable_entities_call base_url token mg))
            app_check_attributable_entities_body,
          6, lit ''Attributable Entities Cache'', lit ''Connection error''),
         (fst (check_winning_ads c cn sid exp),
          raise_bind (server c (sent c) (auction_call cn sid exp)) (check_winning_ads_body cn),
          7, lit ''Winning Ads (Test Auction)'',
          lit ''Connection error '' @ em_dash @ lit '' cannot reach '' @ cn @ lit ''.koddi.io''),
         (fst (app_check_winning_ads c cn sid exp),
          raise_bind (server c (sent c) (app_auction_call cn sid exp)) (check_winning_ads_body cn),
          7, lit ''Winning Ads (Test Auction)'',
          lit ''Connection error '' @ em_dash @ lit '' cannot reach '' @ cn @ lit ''.koddi.io'')].
       (out = Inl TimeoutException \<longrightarrow> r = CheckResult n nm FAIL (lit ''Request timed out''))
     \<and> (out = Inl ConnectError \<longrightarrow> r = CheckResult n nm FAIL conn)
     \<and> (\<forall>exc. out = Inl (Exception exc) \<longrightarrow>
          r = CheckResult n nm FAIL (lit ''Unexpected error: '' @ exc))"
    unfolding check_advertiser_shape check_campaigns_shape app_check_campaigns_shape
      check_entity_failures_shape app_check_entity_failures_shape check_active_bidders_shape
      app_check_active_bidders_shape check_attributable_entities_shape
      app_check_attributable_entities_shape check_winning_ads_shape app_check_winning_ads_shape
      fst_conv
    using h by simp
qed

theorem exceptions_become_failures_witness:
  "fst (check_auth (Client (\<lambda>before call. Inl ConnectError) 30)
          (lit ''https://koddi.io/console/v1'') (lit ''a@b.c'') (lit ''pw'') 12)
     = (CheckResult 1 (lit ''Authentication'') FAIL
          (lit ''Connection error '' @ em_dash @ lit '' cannot reach API''), None)
   \<and> fst (check_advertiser (Client (\<lambda>before call. Inl ConnectError) 30)
          (lit ''https://koddi.io/console/v1'') (JStr (lit ''abc'')) 12 34)
     = CheckResult 2 (lit ''Advertiser Exists'') FAIL (lit ''Connection error'')
   \<and> fst (check_winning_ads (Client (\<lambda>before call. Inl ConnectError) 30)
          (lit ''shop'') (lit ''homepage'') None)
     = CheckResult 7 (lit ''Winning Ads (Test Auction)'') FAIL
         (lit ''Connection error '' @ em_dash @ lit '' cannot reach '' @ lit ''shop''
            @ lit ''.koddi.io'')"
  using exceptions_become_failures [of "Client (\<lambda>before call. Inl ConnectError) 30"
      "lit ''https://koddi.io/console/v1''" "lit ''a@b.c''" "lit ''pw''" 12
      "JStr (lit ''abc'')" 34 "lit ''shop''" "lit ''homepage''" None]
  by (simp add: Let_def)

text \<open>
  C7 as stated fails for Check 1: with the console at \<open>https://koddi.io/console/v1\<close>
  unreachable, its detail is "Connection error --- cannot reach API", which does not
  hold the host \<open>koddi.io\<close>.
\<close>

theorem exceptions_become_failures_counterexample:
  "details (fst (fst (check_auth (Client (\<lambda>before call. Inl ConnectError) 30)
          (lit ''https://koddi.io/console/v1'') (lit ''a@b.c'') (lit ''pw'') 12)))
     = lit ''Connection error '' @ em_dash @ lit '' cannot reach API''
   \<and> \<not> contains (lit ''koddi.io'')
         (details (fst (fst (check_auth (Client (\<lambda>before call. Inl ConnectError) 30)
            (lit ''https://koddi.io/console/v1'') (lit ''a@b.c'') (lit ''pw'') 12))))"
  by (simp add: check_auth_shape lit_def em_dash_def)




text \<open>
  C9.  The result of a check, and for Check 1 the token it carries, is a function of
  what the network answers to the check's call and of the check's own arguments:
  two clients in different states (different calls behind them) whose networks give
  the same raw outcome to that call get identical results.  Nothing else that
  happened before enters the classification.
\<close>

theorem same_response_same_result:
  "(server c1 (sent c1) (login_call base_url email password mg)
      = server c2 (sent c2) (login_call base_url email password mg)
    \<longrightarrow> fst (check_auth c1 base_url email password mg)
        = fst (check_auth c2 base_url email password mg))
   \<and> (\<forall>(call, r1, r2) \<in> set
        [(advertiser_call base_url token mg adv,
          fst (check_advertiser c1 base_url token mg adv),
          fst (check_advertiser c2 base_url token mg adv)),
         (campaigns_call base_url token mg adv,
          fst (check_campaigns c1 base_url token mg adv),
          fst (check_campaigns c2 base_url token mg adv)),
         (campaigns_call base_url token mg adv,
          fst (app_check_campaigns c1 base_url token mg adv),
          fst (app_check_campaigns c2 base_url token mg adv)),
         (entity_failures_call base_url token mg adv,
          fst (check_entity_failures c1 base_url token mg adv),
          fst (check_entity_failures c2 base_url token mg adv)),
         (entity_failures_call base_url token mg adv,
          fst (app_check_entity_failures c1 base_url token mg adv),
          fst (app_check_entity_failures c2 base_url token mg adv)),
         (active_bidders_call base_url token mg,
          fst (check_active_bidders c1 base_url token mg),
          fst (check_active_bidders c2 base_url token mg)),
         (active_bidders_call base_url token mg,
          fst (app_check_active_bidders c1 base_url token mg),
          fst (app_check_active_bidders c2 base_url token mg)),
         (attributable_entities_call base_url token mg,
          fst (check_attributable_entities c1 base_url token mg),
          fst (check_attributable_entities c2 base_url token mg)),
         (attributable_entities_call base_url token mg,
          fst (app_check_attributable_entities c1 base_url token mg),
          fst (app_check_attributable_entities c2 base_url token mg)),
         (auction_call cn sid exp,
          fst (check_winning_ads c1 cn sid exp),
          fst (check_winning_ads c2 cn sid exp)),
         (app_auction_call cn sid exp,
          fst (app_check_winning_ads c1 cn sid exp),
          fst (app_check_winning_ads c2 cn sid exp))].
       server c1 (sent c1) call = server c2 (sent c2) call \<longrightarrow> r1 = r2)"
  unfolding check_auth_shape check_advertiser_shape check_campaigns_shape
    app_check_campaigns_shape check_entity_failures_shape app_check_entity_failures_shape
    check_active_bidders_shape app_check_active_bidders_shape check_attributable_entities_shape
    app_check_attributable_entities_shape check_winning_ads_shape app_check_winning_ads_shape
    fst_conv
  by simp

theorem same_response_same_result_witness:
  "fst (check_auth
          ((Client (\<lambda>before call.
              Inr \<lparr>status_code = 200,
                   parsed = Inr (JObj [(lit ''status'', JStr (lit ''success'')),
                     (lit ''result'',
                      JObj [(lit ''token'', JObj [(lit ''id_token'', JStr (lit ''abc''))])])])\<rparr>) 30)
             \<lparr>sent := [auction_call (lit ''shop'') (lit ''homepage'') None]\<rparr>)
          (lit ''https://koddi.io/console/v1'') (lit ''a@b.c'') (lit ''pw'') 12)
   = fst (check_auth
          (Client (\<lambda>before call.
              Inr \<lparr>status_code = 200,
                   parsed = Inr (JObj [(lit ''status'', JStr (lit ''success'')),
                     (lit ''result'',
                      JObj [(lit ''token'', JObj [(lit ''id_token'', JStr (lit ''abc''))])])])\<rparr>) 30)
          (lit ''https://koddi.io/console/v1'') (lit ''a@b.c'') (lit ''pw'') 12)
   \<and> fst (check_auth
          (Client (\<lambda>before call.
              Inr \<lparr>status_code = 200,
                   parsed = Inr (JObj [(lit ''status'', JStr (lit ''success'')),
                     (lit ''result'',
                      JObj [(lit ''token'', JObj [(lit ''id_token'', JStr (lit ''abc''))])])])\<rparr>) 30)
          (lit ''https://koddi.io/console/v1'') (lit ''a@b.c'') (lit ''pw'') 12)
   = (CheckResult 1 (lit ''Authentication'') PASS (lit ''Authenticated successfully''),
      Some (JStr (lit ''abc'')))"
proof -
  let ?net = "\<lambda>(before :: http_call list) (call :: http_call).
              (Inr \<lparr>status_code = 200,
                   parsed = Inr (JObj [(lit ''status'', JStr (lit ''success'')),
                     (lit ''result'',
                      JObj [(lit ''token'', JObj [(lit ''id_token'', JStr (lit ''abc''))])])])\<rparr>
               :: exn + response)"
  let ?c1 = "(Client ?net 30)\<lparr>sent := [auction_call (lit ''shop'') (lit ''homepage'') None]\<rparr>"
  let ?c2 = "Client ?net 30"
  have e: "fst (check_auth ?c2 (lit ''https://koddi.io/console/v1'') (lit ''a@b.c'') (lit ''pw'') 12)
             = (CheckResult 1 (lit ''Authentication'') PASS (lit ''Authenticated successfully''),
                Some (JStr (lit ''abc'')))"
    by (simp add: check_auth_shape check_auth_body_def resp_json_def)
  have s: "server ?c1 (sent ?c1)
             (login_call (lit ''https://koddi.io/console/v1'') (lit ''a@b.c'') (lit ''pw'') 12)
           = server ?c2 (sent ?c2)
             (login_call (lit ''https://koddi.io/console/v1'') (lit ''a@b.c'') (lit ''pw'') 12)"
    by simp
  from same_response_same_result [of ?c1 "lit ''https://koddi.io/console/v1''" "lit ''a@b.c''"
      "lit ''pw''" 12 ?c2] s
  have "fst (check_auth ?c1 (lit ''https://koddi.io/console/v1'') (lit ''a@b.c'') (lit ''pw'') 12)
      = fst (check_auth ?c2 (lit ''https://koddi.io/console/v1'') (lit ''a@b.c'') (lit ''pw'') 12)"
    by blast
  with e show ?thesis
    by simp
qed

section \<open>The two front ends compared\<close>




end
